theory Spec2Isabelle
  imports Complex_Main
begin

section \<open>Notification messages and the result-wait protocol\<close>

text \<open>
  The wait functions of \<^verbatim>\<open>improveDrawing.tsx\<close> and \<^verbatim>\<open>edit3DCode.tsx\<close> subscribe to a
  channel, install event handlers and a timer, and settle a promise from the handlers.
  The model keeps the promise, the channel's \<^verbatim>\<open>readyState\<close>, the timer and the list of
  calls made so far (\<^verbatim>\<open>resolve\<close>, \<^verbatim>\<open>reject\<close>, \<^verbatim>\<open>close\<close>, \<^verbatim>\<open>clearTimeout\<close>) in a record
  that every handler takes and returns. Console output is not modelled.

  A message body is represented by what \<^verbatim>\<open>JSON.parse\<close> makes of it: either the parse
  throws, or it yields an object whose fields have the types the wait functions' result
  types declare (strings, image records); an absent field is \<open>None\<close>. An event that
  carries no data at all (a connection error, a socket close) is \<open>Unparseable\<close> too,
  since \<^verbatim>\<open>JSON.parse(undefined)\<close> throws. Strings are lists of 8-bit characters.
\<close>

datatype js_error = Error string | SyntaxError | TypeError

record image_data =
  image_base64 :: "string option"
  width :: "int option"
  height :: "int option"

record notification =
  status :: "string option"
  content :: "string option"
  message :: "string option"
  error :: "string option"
  images :: "image_data list option"
  data :: "string option"

datatype payload = Unparseable | Parsed notification

text \<open>An event has a type (\<open>''message''\<close> for an unnamed server-sent event) and data.\<close>

datatype event = Event string payload

datatype 'a promise = Pending | Resolved 'a | Rejected js_error

text \<open>
  \<^verbatim>\<open>CONNECTING\<close> and \<^verbatim>\<open>OPEN\<close> are one state here: the code only ever compares
  \<^verbatim>\<open>readyState\<close> with \<^verbatim>\<open>CLOSED\<close>. \<open>Closing\<close> is a WebSocket between its
  \<^verbatim>\<open>close()\<close> and the end of the closing handshake.
\<close>

datatype ready_state = Active | Closing | Closed

datatype 'a call = Resolve 'a | Reject js_error | Close | ClearTimeout

record 'a wait_state =
  promise :: "'a promise"
  readyState :: ready_state
  timer :: "nat option"
  timeout :: bool
  calls :: "'a call list"

text \<open>A promise keeps its first settlement; later \<^verbatim>\<open>resolve\<close>/\<^verbatim>\<open>reject\<close> calls change nothing.\<close>

definition resolve :: "'a \<Rightarrow> 'a wait_state \<Rightarrow> 'a wait_state" where
  "resolve v s =
     s\<lparr>promise := (case promise s of Pending \<Rightarrow> Resolved v | p \<Rightarrow> p),
       calls := calls s @ [Resolve v]\<rparr>"

definition reject :: "js_error \<Rightarrow> 'a wait_state \<Rightarrow> 'a wait_state" where
  "reject e s =
     s\<lparr>promise := (case promise s of Pending \<Rightarrow> Rejected e | p \<Rightarrow> p),
       calls := calls s @ [Reject e]\<rparr>"

text \<open>\<^verbatim>\<open>EventSource.close()\<close> sets \<^verbatim>\<open>readyState\<close> to \<^verbatim>\<open>CLOSED\<close> at once.\<close>

definition es_close :: "'a wait_state \<Rightarrow> 'a wait_state" where
  "es_close s = s\<lparr>readyState := Closed, calls := calls s @ [Close]\<rparr>"

text \<open>\<^verbatim>\<open>WebSocket.close()\<close> starts the closing handshake; \<^verbatim>\<open>CLOSED\<close> comes with the close event.\<close>

definition ws_close :: "'a wait_state \<Rightarrow> 'a wait_state" where
  "ws_close s =
     s\<lparr>readyState := (if readyState s = Active then Closing else readyState s),
       calls := calls s @ [Close]\<rparr>"

definition clearTimeout :: "'a wait_state \<Rightarrow> 'a wait_state" where
  "clearTimeout s = s\<lparr>timer := None, calls := calls s @ [ClearTimeout]\<rparr>"

text \<open>\<^verbatim>\<open>a || b\<close> on an optional string: an absent or empty \<open>a\<close> is falsy.\<close>

definition js_or :: "string option \<Rightarrow> string \<Rightarrow> string" where
  "js_or a b = (case a of Some s \<Rightarrow> if s \<noteq> [] then s else b | None \<Rightarrow> b)"

definition truthy :: "string option \<Rightarrow> bool" where
  "truthy a = (case a of Some s \<Rightarrow> s \<noteq> [] | None \<Rightarrow> False)"


text \<open>
  A wait function is its state after the promise's executor has run, what it does with a
  delivered event, and its timer callback.
\<close>

record 'a waiter =
  init :: "'a wait_state"
  deliver :: "event \<Rightarrow> 'a wait_state \<Rightarrow> 'a wait_state"
  on_timeout :: "'a wait_state \<Rightarrow> 'a wait_state"

text \<open>A closed EventSource dispatches no further event.\<close>

definition es_deliver ::
  "(event \<Rightarrow> 'a wait_state \<Rightarrow> 'a wait_state) \<Rightarrow> event \<Rightarrow> 'a wait_state \<Rightarrow> 'a wait_state" where
  "es_deliver handlers e s = (if readyState s = Closed then s else handlers e s)"

text \<open>
  A WebSocket dispatches messages only while open; its close event (the end of the
  closing handshake, or a close by the peer) sets \<^verbatim>\<open>readyState\<close> to \<^verbatim>\<open>CLOSED\<close> first.
\<close>

definition ws_deliver ::
  "(event \<Rightarrow> 'a wait_state \<Rightarrow> 'a wait_state) \<Rightarrow> event \<Rightarrow> 'a wait_state \<Rightarrow> 'a wait_state" where
  "ws_deliver handlers e s =
     (case e of Event t p \<Rightarrow>
        if readyState s = Closed then s
        else if t = ''close'' then handlers e (s\<lparr>readyState := Closed\<rparr>)
        else if t = ''message'' \<and> readyState s \<noteq> Active then s
        else handlers e s)"

subsection \<open>waitForImageGeneration\<close>

record image_result =
  image :: "string option"
  img_width :: int
  img_height :: int

text \<open>The shared \<^verbatim>\<open>cleanup\<close> closure of waitForImageGeneration and waitForCodeEditing.\<close>

definition cleanup :: "'a wait_state \<Rightarrow> 'a wait_state" where
  "cleanup s =
     es_close (if timeout s then (clearTimeout s)\<lparr>timeout := False\<rparr> else s)"







subsection \<open>waitForCodeEditing\<close>

text \<open>
  The result \<^verbatim>\<open>{ content: string } | null\<close> is a \<open>string option\<close>: \<open>Some c\<close> is the
  object \<^verbatim>\<open>{ content: c }\<close>, \<open>None\<close> is \<^verbatim>\<open>null\<close>.
\<close>

definition edit_complete :: "payload \<Rightarrow> string option wait_state \<Rightarrow> string option wait_state" where
  "edit_complete p s =
     cleanup
       (case p of
          Unparseable \<Rightarrow> reject SyntaxError s
        | Parsed d \<Rightarrow>
            if truthy (content d) then resolve (content d) s else resolve None s)"

definition edit_error_event :: "payload \<Rightarrow> 'a wait_state \<Rightarrow> 'a wait_state" where
  "edit_error_event p s =
     cleanup
       (case p of
          Unparseable \<Rightarrow> reject (Error ''Unknown error in code editing'') s
        | Parsed d \<Rightarrow> reject (Error (js_or (error d) ''Error editing code'')) s)"

definition edit_onerror :: "'a wait_state \<Rightarrow> 'a wait_state" where
  "edit_onerror s = cleanup (reject (Error ''Error with SSE connection'') s)"

definition edit_dispatch :: "event \<Rightarrow> string option wait_state \<Rightarrow> string option wait_state" where
  "edit_dispatch e s =
     (case e of Event t p \<Rightarrow>
        if t = ''start'' then s
        else if t = ''complete'' then edit_complete p s
        else if t = ''error'' then edit_onerror (edit_error_event p s)
        else s)"

definition edit_timeout :: "'a wait_state \<Rightarrow> 'a wait_state" where
  "edit_timeout s = reject (Error ''Code editing timed out'') (es_close s)"

definition waitForCodeEditing :: "string option waiter" where
  "waitForCodeEditing =
     \<lparr>init = \<lparr>promise = Pending, readyState = Active, timer = Some 120000,
               timeout = True, calls = []\<rparr>,
      deliver = es_deliver edit_dispatch,
      on_timeout = edit_timeout\<rparr>"

subsection \<open>waitForCodeGeneration\<close>

definition code_onmessage :: "payload \<Rightarrow> string option wait_state \<Rightarrow> string option wait_state" where
  "code_onmessage p s =
     (case p of
        Unparseable \<Rightarrow> es_close (reject SyntaxError s)
      | Parsed d \<Rightarrow>
          if status d = Some ''completed'' then
            es_close (if truthy (content d) then resolve (content d) s else resolve None s)
          else if status d = Some ''failed'' \<or> status d = Some ''error'' then
            es_close (reject (Error (js_or (message d) ''Error generating code'')) s)
          else s)"

definition code_complete :: "payload \<Rightarrow> string option wait_state \<Rightarrow> string option wait_state" where
  "code_complete p s =
     (case p of
        Unparseable \<Rightarrow> es_close (reject SyntaxError s)
      | Parsed d \<Rightarrow>
          es_close (if truthy (content d) then resolve (content d) s else resolve None s))"

definition code_error_event :: "payload \<Rightarrow> 'a wait_state \<Rightarrow> 'a wait_state" where
  "code_error_event p s =
     es_close
       (case p of
          Unparseable \<Rightarrow> reject (Error ''Unknown error in code generation'') s
        | Parsed d \<Rightarrow> reject (Error (js_or (error d) ''Error generating code'')) s)"

definition code_onerror :: "'a wait_state \<Rightarrow> 'a wait_state" where
  "code_onerror s = es_close (reject (Error ''Error with SSE connection'') s)"

definition code_dispatch :: "event \<Rightarrow> string option wait_state \<Rightarrow> string option wait_state" where
  "code_dispatch e s =
     (case e of Event t p \<Rightarrow>
        if t = ''message'' then code_onmessage p s
        else if t = ''start'' then s
        else if t = ''complete'' then code_complete p s
        else if t = ''error'' then code_onerror (code_error_event p s)
        else s)"

definition code_timeout :: "'a wait_state \<Rightarrow> 'a wait_state" where
  "code_timeout s =
     (if readyState s \<noteq> Closed
      then reject (Error ''Code generation timed out'') (es_close s)
      else s)"

definition waitForCodeGeneration :: "string option waiter" where
  "waitForCodeGeneration =
     \<lparr>init = \<lparr>promise = Pending, readyState = Active, timer = Some 300000,
               timeout = False, calls = []\<rparr>,
      deliver = es_deliver code_dispatch,
      on_timeout = code_timeout\<rparr>"

subsection \<open>waitForTaskResult\<close>

text \<open>
  The socket's \<^verbatim>\<open>onmessage\<close> parses outside any \<^verbatim>\<open>try\<close>: when the parse throws, the
  handler ends there and nothing else happens. The promise resolves with \<^verbatim>\<open>data.data\<close>
  as it is: \<open>None\<close> is \<^verbatim>\<open>undefined\<close>.
\<close>

definition task_onmessage :: "payload \<Rightarrow> string option wait_state \<Rightarrow> string option wait_state" where
  "task_onmessage p s =
     (case p of
        Unparseable \<Rightarrow> s
      | Parsed d \<Rightarrow>
          if status d = Some ''completed'' then ws_close (resolve (data d) s)
          else if status d = Some ''failed'' \<or> status d = Some ''error'' then
            ws_close (reject (Error (js_or (message d) ''Unknown error occurred'')) s)
          else s)"

definition task_onerror :: "'a wait_state \<Rightarrow> 'a wait_state" where
  "task_onerror s = ws_close (reject (Error ''Error with WebSocket connection'') s)"

definition task_dispatch :: "event \<Rightarrow> string option wait_state \<Rightarrow> string option wait_state" where
  "task_dispatch e s =
     (case e of Event t p \<Rightarrow>
        if t = ''message'' then task_onmessage p s
        else if t = ''error'' then task_onerror s
        else s)"

definition task_timeout :: "'a wait_state \<Rightarrow> 'a wait_state" where
  "task_timeout s =
     (if readyState s \<noteq> Closed
      then reject (Error ''Task timed out'') (ws_close s)
      else s)"

definition waitForTaskResult :: "string option waiter" where
  "waitForTaskResult =
     \<lparr>init = \<lparr>promise = Pending, readyState = Active, timer = Some 120000,
               timeout = False, calls = []\<rparr>,
      deliver = ws_deliver task_dispatch,
      on_timeout = task_timeout\<rparr>"

subsection \<open>Runs of a wait function\<close>

text \<open>
  A run is a list of events, each with its arrival time in milliseconds since the wait
  function was called. Before an event is delivered, the timer fires if its delay has
  passed; \<open>wait_until\<close> is the state at a given time after the events.
\<close>

definition elapse :: "'a waiter \<Rightarrow> nat \<Rightarrow> 'a wait_state \<Rightarrow> 'a wait_state" where
  "elapse w t s =
     (case timer s of
        Some d \<Rightarrow> if d \<le> t then on_timeout w (s\<lparr>timer := None\<rparr>) else s
      | None \<Rightarrow> s)"

fun run :: "'a waiter \<Rightarrow> 'a wait_state \<Rightarrow> (nat \<times> event) list \<Rightarrow> 'a wait_state" where
  "run w s [] = s"
| "run w s ((t, e) # es) = run w (deliver w e (elapse w t s)) es"


text \<open>The numbers of settling calls and of close calls made.\<close>

fun is_settle :: "'a call \<Rightarrow> bool" where
  "is_settle (Resolve v) = True"
| "is_settle (Reject e) = True"
| "is_settle c = False"

definition settle_calls :: "'a wait_state \<Rightarrow> nat" where
  "settle_calls s = length (filter is_settle (calls s))"

definition close_calls :: "'a wait_state \<Rightarrow> nat" where
  "close_calls s = length (filter (\<lambda>c. c = Close) (calls s))"


section \<open>The code sanitizer\<close>

text \<open>
  \<^verbatim>\<open>processThreeJsCode\<close> is made of regular-expression matches and replacements. The
  regular expressions are kept as syntax trees and run by a backtracking matcher that
  tries alternatives in the order of the source language: a greedy quantifier takes the
  longest run first, a lazy one the shortest, and the first success is the match. All
  quantified subexpressions of the source patterns are single character classes, an
  optional literal or one optional group, so these are the quantifiers the trees have.
  \<open>Bol\<close> and \<open>Eol\<close> are \<^verbatim>\<open>^\<close> and \<^verbatim>\<open>$\<close> under the \<^verbatim>\<open>m\<close> flag.
\<close>


datatype cls = Space | Word | Dot | Any | Quote | NotChar char

definition line_terminator :: "char \<Rightarrow> bool" where
  "line_terminator c = (c = CHR 0x0A \<or> c = CHR 0x0D)"

definition white_space :: "char \<Rightarrow> bool" where
  "white_space c = (c = CHR 0x09 \<or> c = CHR 0x0A \<or> c = CHR 0x0B \<or> c = CHR 0x0C \<or> c = CHR 0x0D
                    \<or> c = CHR 0x20 \<or> c = CHR 0xA0)"

definition word_char :: "char \<Rightarrow> bool" where
  "word_char c = (let n = of_char c :: nat in
     (97 \<le> n \<and> n \<le> 122) \<or> (65 \<le> n \<and> n \<le> 90) \<or> (48 \<le> n \<and> n \<le> 57) \<or> n = 95)"

fun cls_mem :: "cls \<Rightarrow> char \<Rightarrow> bool" where
  "cls_mem Space c = white_space c"
| "cls_mem Word c = word_char c"
| "cls_mem Dot c = (\<not> line_terminator c)"
| "cls_mem Any c = True"
| "cls_mem Quote c = (c = CHR 0x27 \<or> c = CHR 0x22)"
| "cls_mem (NotChar x) c = (c \<noteq> x)"

text \<open>
  \<open>Space\<close> is \<^verbatim>\<open>\s\<close>, \<open>Word\<close> is \<^verbatim>\<open>\w\<close>, \<open>Dot\<close> is \<^verbatim>\<open>.\<close>, \<open>Any\<close> is \<^verbatim>\<open>[\s\S]\<close>,
  \<open>Quote\<close> is \<^verbatim>\<open>['"]\<close> and \<open>NotChar c\<close> is \<^verbatim>\<open>[^c]\<close>.
\<close>

datatype re = Lit string | Set cls | Star cls | Plus cls | LazyStar cls | Opt re | Group re
  | Seq re re | Bol | Eol

text \<open>
  A matcher state is the character before the current position (none at the start of the
  text), the text from the current position on, and the first capture group.
\<close>

type_synonym mstate = "char option \<times> string \<times> string option"

fun lit :: "string \<Rightarrow> char option \<Rightarrow> string \<Rightarrow> (char option \<times> string) option" where
  "lit [] p s = Some (p, s)"
| "lit (c # cs) p [] = None"
| "lit (c # cs) p (x # xs) = (if c = x then lit cs (Some x) xs else None)"

fun star_greedy :: "cls \<Rightarrow> char option \<Rightarrow> string \<Rightarrow> (char option \<Rightarrow> string \<Rightarrow> 'a option) \<Rightarrow> 'a option" where
  "star_greedy c p [] k = k p []"
| "star_greedy c p (x # xs) k =
     (if cls_mem c x
      then (case star_greedy c (Some x) xs k of Some r \<Rightarrow> Some r | None \<Rightarrow> k p (x # xs))
      else k p (x # xs))"

fun star_lazy :: "cls \<Rightarrow> char option \<Rightarrow> string \<Rightarrow> (char option \<Rightarrow> string \<Rightarrow> 'a option) \<Rightarrow> 'a option" where
  "star_lazy c p [] k = k p []"
| "star_lazy c p (x # xs) k =
     (case k p (x # xs) of
        Some r \<Rightarrow> Some r
      | None \<Rightarrow> if cls_mem c x then star_lazy c (Some x) xs k else None)"

definition at_line_start :: "char option \<Rightarrow> bool" where
  "at_line_start p = (case p of None \<Rightarrow> True | Some c \<Rightarrow> line_terminator c)"

definition at_line_end :: "string \<Rightarrow> bool" where
  "at_line_end s = (case s of [] \<Rightarrow> True | c # _ \<Rightarrow> line_terminator c)"

primrec mt :: "re \<Rightarrow> mstate \<Rightarrow> (mstate \<Rightarrow> 'a option) \<Rightarrow> 'a option" where
  "mt (Lit l) = (\<lambda>(p, s, g) k. case lit l p s of Some (p', s') \<Rightarrow> k (p', s', g) | None \<Rightarrow> None)"
| "mt (Set c) = (\<lambda>(p, s, g) k. case s of x # xs \<Rightarrow> if cls_mem c x then k (Some x, xs, g) else None | [] \<Rightarrow> None)"
| "mt (Star c) = (\<lambda>(p, s, g) k. star_greedy c p s (\<lambda>p' s'. k (p', s', g)))"
| "mt (Plus c) = (\<lambda>(p, s, g) k. case s of x # xs \<Rightarrow>
      if cls_mem c x then star_greedy c (Some x) xs (\<lambda>p' s'. k (p', s', g)) else None | [] \<Rightarrow> None)"
| "mt (LazyStar c) = (\<lambda>(p, s, g) k. star_lazy c p s (\<lambda>p' s'. k (p', s', g)))"
| "mt (Opt r) = (\<lambda>st k. case mt r st k of Some x \<Rightarrow> Some x | None \<Rightarrow> k st)"
| "mt (Group r) = (\<lambda>(p, s, g) k. mt r (p, s, g) (\<lambda>(p', s', g'). k (p', s', Some (take (length s - length s') s))))"
| "mt (Seq r1 r2) = (\<lambda>st k. mt r1 st (\<lambda>st'. mt r2 st' k))"
| "mt Bol = (\<lambda>(p, s, g) k. if at_line_start p then k (p, s, g) else None)"
| "mt Eol = (\<lambda>(p, s, g) k. if at_line_end s then k (p, s, g) else None)"

text \<open>One attempt at a position, and the leftmost match from a position on.\<close>

definition exec :: "re \<Rightarrow> char option \<Rightarrow> string \<Rightarrow> mstate option" where
  "exec r p s = mt r (p, s, None) Some"

fun search :: "re \<Rightarrow> char option \<Rightarrow> string \<Rightarrow> mstate option" where
  "search r p [] = exec r p []"
| "search r p (x # xs) =
     (case exec r p (x # xs) of Some st \<Rightarrow> Some st | None \<Rightarrow> search r (Some x) xs)"

text \<open>
  \<^verbatim>\<open>text.replace(r, rep)\<close> for a global pattern and a replacement without \<^verbatim>\<open>$\<close>: every
  match, found from left to right, is replaced; after an empty match the search moves on
  by one character.
\<close>

function replace_all :: "re \<Rightarrow> string \<Rightarrow> char option \<Rightarrow> string \<Rightarrow> string" where
  "replace_all r rep p [] = (case exec r p [] of Some st \<Rightarrow> rep | None \<Rightarrow> [])"
| "replace_all r rep p (x # xs) =
     (case exec r p (x # xs) of
        Some (p', s', g) \<Rightarrow>
          if length s' < length (x # xs) then rep @ replace_all r rep p' s'
          else rep @ x # replace_all r rep (Some x) xs
      | None \<Rightarrow> x # replace_all r rep (Some x) xs)"
  by pat_completeness auto
termination
  by (relation "measure (\<lambda>(r, rep, p, s). length s)") auto

fun seq :: "re list \<Rightarrow> re" where
  "seq [] = Lit []"
| "seq [r] = r"
| "seq (r # rs) = Seq r (seq rs)"


definition jsPattern :: re where
  "jsPattern =
     seq [Lit ''```javascript'', Star Space, Lit ''\<newline>'', Group (LazyStar Any), Lit ''```'']"

definition codePattern :: re where
  "codePattern =
     seq [Lit ''```'', Opt (Seq (Star Word) (Star Space)), Lit ''\<newline>'', Group (LazyStar Any),
          Lit ''```'']"

definition scriptPattern :: re where
  "scriptPattern =
     seq [Lit ''<script'', Star (NotChar CHR ''>''), Lit ''>'', Group (LazyStar Any),
          Lit ''</script>'']"

text \<open>The eight import and require patterns and the identifier pattern, in the source's order.\<close>

definition import_from :: re where
  "import_from =
     seq [Bol, Lit ''import'', Plus Space, LazyStar Dot, Lit ''from'', Plus Space, Set Quote,
          LazyStar Dot, Set Quote, Opt (Lit '';''), Star Space, Eol]"

definition import_star_as :: re where
  "import_star_as =
     seq [Bol, Lit ''import'', Plus Space, Lit ''*'', Plus Space, Lit ''as'', Plus Space,
          LazyStar Dot, Plus Space, Lit ''from'', Plus Space, Set Quote, LazyStar Dot, Set Quote,
          Opt (Lit '';''), Star Space, Eol]"

definition import_bare :: re where
  "import_bare =
     seq [Bol, Lit ''import'', Plus Space, Set Quote, LazyStar Dot, Set Quote, Opt (Lit '';''),
          Star Space, Eol]"

definition const_require :: re where
  "const_require =
     seq [Bol, Lit ''const'', Plus Space, LazyStar Dot, Star Space, Lit ''='', Star Space,
          Lit ''require('', Set Quote, LazyStar Dot, Set Quote, Lit '')'', Opt (Lit '';''),
          Star Space, Eol]"

definition import_THREE_namespace :: re where
  "import_THREE_namespace =
     seq [Lit ''import'', Plus Space, Lit ''*'', Plus Space, Lit ''as'', Plus Space, Lit ''THREE'',
          Plus Space, Lit ''from'', Plus Space, Set Quote, Lit ''three'', Set Quote,
          Opt (Lit '';''), Star Space]"

definition import_OrbitControls :: re where
  "import_OrbitControls =
     seq [Lit ''import'', Plus Space, Lit ''{'', Star Space, Lit ''OrbitControls'', Star Space,
          Lit ''}'', Plus Space, Lit ''from'', Plus Space, Set Quote,
          Lit ''three/addons/controls/OrbitControls.js'', Set Quote, Opt (Lit '';''), Star Space]"

definition import_named :: re where
  "import_named =
     seq [Lit ''import'', Plus Space, Lit ''{'', Star Space, Star (NotChar CHR ''}''), Star Space,
          Lit ''}'', Plus Space, Lit ''from'', Plus Space, Set Quote, Lit ''three'', Set Quote,
          Opt (Lit '';''), Star Space]"

definition import_THREE_default :: re where
  "import_THREE_default =
     seq [Lit ''import'', Plus Space, Lit ''THREE'', Plus Space, Lit ''from'', Plus Space,
          Set Quote, Lit ''three'', Set Quote, Opt (Lit '';''), Star Space]"

definition THREE_OrbitControls :: re where
  "THREE_OrbitControls = Lit ''THREE.OrbitControls''"

text \<open>
  \<^verbatim>\<open>text.match(r)\<close> followed by \<^verbatim>\<open>m && m[1]\<close>: the first capture group of the leftmost
  match, wanted only when it is a non-empty string.
\<close>

definition capture1 :: "re \<Rightarrow> string \<Rightarrow> string option" where
  "capture1 r s = (case search r None s of Some (p, s', g) \<Rightarrow> g | None \<Rightarrow> None)"

definition extract_code :: "string \<Rightarrow> string" where
  "extract_code code =
     (let jsMatch = capture1 jsPattern code in
      if truthy jsMatch then the jsMatch
      else
        let codeMatch = capture1 codePattern code in
        if truthy codeMatch then the codeMatch
        else
          let scriptMatch = capture1 scriptPattern code in
          if truthy scriptMatch then the scriptMatch
          else code)"

definition strip_imports :: "string \<Rightarrow> string" where
  "strip_imports code =
     (let processedCode = replace_all import_from [] None code;
          processedCode = replace_all import_star_as [] None processedCode;
          processedCode = replace_all import_bare [] None processedCode;
          processedCode = replace_all const_require [] None processedCode;
          processedCode = replace_all import_THREE_namespace [] None processedCode;
          processedCode = replace_all import_OrbitControls [] None processedCode;
          processedCode = replace_all import_named [] None processedCode;
          processedCode = replace_all import_THREE_default [] None processedCode;
          processedCode = replace_all THREE_OrbitControls ''OrbitControls'' None processedCode
      in processedCode)"

definition processThreeJsCode :: "string \<Rightarrow> string" where
  "processThreeJsCode code = strip_imports (extract_code code)"

section \<open>The editor and the orchestrators\<close>

text \<open>
  The host editor is a store of shapes by id, the current selection and its page bounds.
  Only the fields the orchestrators read or write are kept. Coordinates are real numbers
  (the source's are floating-point). The \<^verbatim>\<open>selectedShapes\<close> prop holds the ids of the
  shapes; an absent prop is \<open>None\<close>.
\<close>

type_synonym shape_id = string

record shape =
  shape_id :: shape_id
  shape_type :: string
  shape_x :: real
  shape_y :: real
  threeJsCode :: "string option"
  objectCode :: string
  gltfUrl :: "string option"
  isGltf :: bool
  props_w :: real
  props_h :: real
  selectedShapes :: "shape_id list"

record bounds =
  maxX :: real
  midY :: real

record editor =
  store :: "shape_id \<Rightarrow> shape option"
  getSelectedShapes :: "shape list"
  getSelectionPageBounds :: "bounds option"

text \<open>A new \<^verbatim>\<open>model3d\<close> shape starts from \<^verbatim>\<open>Model3DPreviewShapeUtil.getDefaultProps\<close>.\<close>

definition getDefaultProps :: "shape_id \<Rightarrow> real \<Rightarrow> real \<Rightarrow> shape" where
  "getDefaultProps sid sx sy =
     \<lparr>shape_id = sid, shape_type = ''model3d'', shape_x = sx, shape_y = sy,
      threeJsCode = Some [], objectCode = [], gltfUrl = Some [], isGltf = False,
      props_w = (960 * 2) / 3, props_h = (540 * 2) / 3, selectedShapes = []\<rparr>"

definition createShape :: "shape \<Rightarrow> editor \<Rightarrow> editor" where
  "createShape sh ed = ed\<lparr>store := (store ed)(shape_id sh \<mapsto> sh)\<rparr>"

text \<open>\<^verbatim>\<open>updateShape\<close> merges the given props into the shape of that id, if there is one.\<close>

definition updateShape :: "shape_id \<Rightarrow> (shape \<Rightarrow> shape) \<Rightarrow> editor \<Rightarrow> editor" where
  "updateShape sid f ed =
     (case store ed sid of
        Some sh \<Rightarrow> ed\<lparr>store := (store ed)(sid \<mapsto> f sh)\<rparr>
      | None \<Rightarrow> ed)"

definition deleteShape :: "shape_id \<Rightarrow> editor \<Rightarrow> editor" where
  "deleteShape sid ed = ed\<lparr>store := (store ed)(sid := None)\<rparr>"

text \<open>
  What the orchestrators get from outside: the fresh id of \<^verbatim>\<open>createShapeId\<close>, the export
  helpers (each may throw; \<^verbatim>\<open>getSvg\<close> and \<^verbatim>\<open>getSvgAsImage\<close> may yield nothing), the text
  of the selection, the remote service's answer to a request, and the events that the
  notification channel of a URL delivers.
\<close>

datatype request =
    ImageRequest string string
  | TrellisRequest string
  | EditRequest string string string

record json_body =
  detail :: "string option"
  task_id :: "string option"
  data_task_id :: "string option option"

record http_response =
  ok :: bool
  statusText :: string
  json :: "js_error + json_body"

record env =
  createShapeId :: shape_id
  getSvg :: "shape list \<Rightarrow> js_error + string option"
  getSvgAsImage :: "string \<Rightarrow> js_error + string option"
  blobToBase64 :: "string option \<Rightarrow> js_error + string"
  getSelectionAsText :: string
  fetch :: "string \<Rightarrow> request \<Rightarrow> js_error + http_response"
  events :: "string \<Rightarrow> (nat \<times> event) list"

datatype effect =
    CreateShape shape
  | UpdateShape shape_id
  | DeleteShape shape_id
  | GetSvg "shape list"
  | GetSvgAsImage
  | BlobToBase64
  | Fetch string request
  | OpenEventSource string
  | OpenWebSocket string
  | SetIsEditing bool

text \<open>
  An asynchronous function returns, throws, or never gets past an \<^verbatim>\<open>await\<close> on a promise
  that stays pending.
\<close>

datatype 'a outcome = Returned 'a | Threw js_error | Never

text \<open>The promise as it ends up: after every event, and after the timer if it is still set.\<close>

definition final :: "'a waiter \<Rightarrow> (nat \<times> event) list \<Rightarrow> 'a wait_state" where
  "final w es =
     (let s = run w (init w) es in
      case timer s of
        Some d \<Rightarrow> on_timeout w (s\<lparr>timer := None\<rparr>)
      | None \<Rightarrow> s)"

definition await :: "'a promise \<Rightarrow> 'a outcome" where
  "await p = (case p of Resolved v \<Rightarrow> Returned v | Rejected e \<Rightarrow> Threw e | Pending \<Rightarrow> Never)"

text \<open>A template literal prints an absent value as \<^verbatim>\<open>undefined\<close>.\<close>

definition template :: "string option \<Rightarrow> string" where
  "template a = (case a of Some s \<Rightarrow> s | None \<Rightarrow> ''undefined'')"

subsection \<open>vibe3DCode\<close>

text \<open>The two branches of the \<^verbatim>\<open>try\<close> block: the asset job and the scene-code job.\<close>

definition vibe3DCode_thinking ::
  "env \<Rightarrow> editor \<Rightarrow> shape_id \<Rightarrow> string \<Rightarrow> unit outcome \<times> editor \<times> effect list" where
  "vibe3DCode_thinking env ed shapeId dataUrl =
     (let url = ''http://localhost:8001/api/trellis/task''; req = TrellisRequest dataUrl in
      case fetch env url req of
        Inl e \<Rightarrow> (Threw e, ed, [Fetch url req])
      | Inr response \<Rightarrow>
          if \<not> ok response then
            (case json response of
               Inl e \<Rightarrow> (Threw e, ed, [Fetch url req])
             | Inr errorData \<Rightarrow>
                 (Threw (Error (''API error: '' @ js_or (detail errorData) (statusText response))),
                  ed, [Fetch url req]))
          else
            (case json response of
               Inl e \<Rightarrow> (Threw e, ed, [Fetch url req])
             | Inr jsonResponse \<Rightarrow>
                 (case data_task_id jsonResponse of
                    None \<Rightarrow> (Threw TypeError, ed, [Fetch url req])
                  | Some taskId \<Rightarrow>
                      let ws = ''ws://localhost:8001/api/trellis/task/ws/'' @ template taskId in
                      (case await (promise (final waitForTaskResult (events env ws))) of
                         Never \<Rightarrow> (Never, ed, [Fetch url req, OpenWebSocket ws])
                       | Threw e \<Rightarrow> (Threw e, ed, [Fetch url req, OpenWebSocket ws])
                       | Returned gltfUrl' \<Rightarrow>
                           (Returned (),
                            updateShape shapeId (\<lambda>sh. sh\<lparr>gltfUrl := gltfUrl', isGltf := True\<rparr>) ed,
                            [Fetch url req, OpenWebSocket ws, UpdateShape shapeId])))))"

definition vibe3DCode_queue ::
  "env \<Rightarrow> editor \<Rightarrow> shape_id \<Rightarrow> string \<Rightarrow> string \<Rightarrow> unit outcome \<times> editor \<times> effect list" where
  "vibe3DCode_queue env ed shapeId dataUrl selectionText =
     (let url = ''http://localhost:8001/api/queue/3d''; req = ImageRequest selectionText dataUrl in
      case fetch env url req of
        Inl e \<Rightarrow> (Threw e, ed, [Fetch url req])
      | Inr response \<Rightarrow>
          if \<not> ok response then
            (case json response of
               Inl e \<Rightarrow> (Threw e, ed, [Fetch url req])
             | Inr errorData \<Rightarrow>
                 (Threw (Error (''API error: '' @ js_or (detail errorData) (statusText response))),
                  ed, [Fetch url req]))
          else
            (case json response of
               Inl e \<Rightarrow> (Threw e, ed, [Fetch url req])
             | Inr jsonResponse \<Rightarrow>
                 let es = ''http://localhost:8001/api/subscribe/'' @ template (task_id jsonResponse) in
                 (case await (promise (final waitForCodeGeneration (events env es))) of
                    Never \<Rightarrow> (Never, ed, [Fetch url req, OpenEventSource es])
                  | Threw e \<Rightarrow> (Threw e, ed, [Fetch url req, OpenEventSource es])
                  | Returned generatedCodeData \<Rightarrow>
                      if truthy generatedCodeData then
                        let threeJsCode' = processThreeJsCode (the generatedCodeData) in
                        if length threeJsCode' < 100 then
                          (Threw (Error ''Could not generate a 3D model from those wireframes.''),
                           ed, [Fetch url req, OpenEventSource es])
                        else
                          (Returned (),
                           updateShape shapeId
                             (\<lambda>sh. sh\<lparr>threeJsCode := Some threeJsCode', isGltf := False\<rparr>) ed,
                           [Fetch url req, OpenEventSource es, UpdateShape shapeId])
                      else
                        (Threw (Error ''No code was generated''), ed,
                         [Fetch url req, OpenEventSource es]))))"

text \<open>
  The preview shape is created first; the export of the selection follows, outside the
  \<^verbatim>\<open>try\<close> block; only the submission and the wait are inside it.
\<close>

definition vibe3DCode ::
  "env \<Rightarrow> editor \<Rightarrow> shape_id option \<Rightarrow> bool \<Rightarrow> unit outcome \<times> editor \<times> effect list" where
  "vibe3DCode env ed shapeId thinkingMode =
     (let selectedShapes' = getSelectedShapes ed in
      if length selectedShapes' = 0 then
        (Threw (Error ''First select something to make real.''), ed, [])
      else
        case
          (if \<not> truthy shapeId then
             (case getSelectionPageBounds ed of
                None \<Rightarrow> Inl TypeError
              | Some b \<Rightarrow>
                  let sh = (getDefaultProps (createShapeId env) (maxX b + 60)
                              (midY b - (540 * 2) / 3 / 2))
                             \<lparr>threeJsCode := Some [],
                              selectedShapes := map shape_id selectedShapes',
                              gltfUrl := Some []\<rparr>
                  in Inr (createShapeId env, createShape sh ed, [CreateShape sh]))
           else Inr (the shapeId, ed, []))
        of
          Inl e \<Rightarrow> (Threw e, ed, [])
        | Inr (sid, ed1, fx1) \<Rightarrow>
            let selectedShapesWithoutModel3d =
                  filter (\<lambda>shape. shape_type shape \<noteq> ''model3d'') selectedShapes';
                fx2 = fx1 @ [GetSvg selectedShapesWithoutModel3d]
            in
            (case getSvg env selectedShapesWithoutModel3d of
               Inl e \<Rightarrow> (Threw e, ed1, fx2)
             | Inr None \<Rightarrow> (Returned (), ed1, fx2)
             | Inr (Some svg) \<Rightarrow>
                 (case getSvgAsImage env svg of
                    Inl e \<Rightarrow> (Threw e, ed1, fx2 @ [GetSvgAsImage])
                  | Inr blob \<Rightarrow>
                      (case blobToBase64 env blob of
                         Inl e \<Rightarrow> (Threw e, ed1, fx2 @ [GetSvgAsImage, BlobToBase64])
                       | Inr dataUrl \<Rightarrow>
                           let selectionText = getSelectionAsText env;
                               fx3 = fx2 @ [GetSvgAsImage, BlobToBase64]
                           in
                           (case (if thinkingMode then vibe3DCode_thinking env ed1 sid dataUrl
                                  else vibe3DCode_queue env ed1 sid dataUrl selectionText)
                            of
                              (Threw e, ed2, fx4) \<Rightarrow>
                                (Threw e, deleteShape sid ed2, fx3 @ fx4 @ [DeleteShape sid])
                            | (r, ed2, fx4) \<Rightarrow> (r, ed2, fx3 @ fx4))))))"

subsection \<open>edit3DCode\<close>

definition edit3DCode_body :: "env \<Rightarrow> editor \<Rightarrow> shape_id outcome \<times> editor \<times> effect list" where
  "edit3DCode_body env ed =
     (let selectedShapes' = getSelectedShapes ed in
      if length selectedShapes' = 0 then
        (Threw (Error ''First select shapes for editing.''), ed, [])
      else
        let model3dShapes = filter (\<lambda>shape. shape_type shape = ''model3d'') selectedShapes';
            nonModel3dShapes = filter (\<lambda>shape. shape_type shape \<noteq> ''model3d'') selectedShapes'
        in
        if length model3dShapes = 0 then
          (Threw (Error ''First select a 3D model to edit.''), ed, [])
        else if length model3dShapes > 1 then
          (Threw (Error ''Select only one 3D model at a time.''), ed, [])
        else if length nonModel3dShapes = 0 then
          (Threw (Error ''Select at least one drawing or shape to guide the editing.''), ed, [])
        else
          case model3dShapes of
            [] \<Rightarrow> (Threw TypeError, ed, [])
          | model3dShape # _ \<Rightarrow>
              let threeJsCode' = threeJsCode model3dShape in
              if \<not> truthy threeJsCode' \<or> length (the threeJsCode') < 10 then
                (Threw (Error ''The selected 3D model does not contain valid code.''), ed, [])
              else
                let fx1 = [GetSvg nonModel3dShapes] in
                (case getSvg env nonModel3dShapes of
                   Inl e \<Rightarrow> (Threw e, ed, fx1)
                 | Inr None \<Rightarrow>
                     (Threw (Error ''Could not generate SVG from selected shapes.''), ed, fx1)
                 | Inr (Some svg) \<Rightarrow>
                     (case getSvgAsImage env svg of
                        Inl e \<Rightarrow> (Threw e, ed, fx1 @ [GetSvgAsImage])
                      | Inr None \<Rightarrow>
                          (Threw (Error ''Could not generate image from SVG.''), ed,
                           fx1 @ [GetSvgAsImage])
                      | Inr (Some blob) \<Rightarrow>
                          (case blobToBase64 env (Some blob) of
                             Inl e \<Rightarrow> (Threw e, ed, fx1 @ [GetSvgAsImage, BlobToBase64])
                           | Inr dataUrl \<Rightarrow>
                               let selectionText = getSelectionAsText env;
                                   url = ''http://localhost:8001/api/queue/edit'';
                                   req = EditRequest (the threeJsCode') selectionText dataUrl;
                                   fx2 = fx1 @ [GetSvgAsImage, BlobToBase64, Fetch url req]
                               in
                               (case fetch env url req of
                                  Inl e \<Rightarrow> (Threw e, ed, fx2)
                                | Inr response \<Rightarrow>
                                    if \<not> ok response then
                                      (case json response of
                                         Inl e \<Rightarrow> (Threw e, ed, fx2)
                                       | Inr errorData \<Rightarrow>
                                           (Threw (Error (''API error: '' @
                                              js_or (detail errorData) (statusText response))),
                                            ed, fx2))
                                    else
                                      (case json response of
                                         Inl e \<Rightarrow> (Threw e, ed, fx2)
                                       | Inr jsonResponse \<Rightarrow>
                                           let es = ''http://localhost:8001/api/subscribe/'' @
                                                      template (task_id jsonResponse);
                                               fx3 = fx2 @ [OpenEventSource es]
                                           in
                                           (case await (promise (final waitForCodeEditing
                                                                   (events env es))) of
                                              Never \<Rightarrow> (Never, ed, fx3)
                                            | Threw e \<Rightarrow> (Threw e, ed, fx3)
                                            | Returned editedCodeData \<Rightarrow>
                                                if truthy editedCodeData then
                                                  let editedThreeJsCode =
                                                        processThreeJsCode (the editedCodeData)
                                                  in
                                                  if length editedThreeJsCode < 100 then
                                                    (Threw (Error
                                                       ''Could not generate edited 3D model code.''),
                                                     ed, fx3)
                                                  else
                                                    (Returned (shape_id model3dShape),
                                                     updateShape (shape_id model3dShape)
                                                       (\<lambda>sh. sh\<lparr>threeJsCode :=
                                                                 Some editedThreeJsCode\<rparr>) ed,
                                                     fx3 @ [UpdateShape (shape_id model3dShape)])
                                                else
                                                  (Threw (Error
                                                     ''No code was generated from the edit''),
                                                   ed, fx3))))))))"

text \<open>
  The optional \<^verbatim>\<open>setIsEditing\<close> callback is called with \<^verbatim>\<open>true\<close> before the \<^verbatim>\<open>try\<close>
  block and with \<^verbatim>\<open>false\<close> in its \<^verbatim>\<open>finally\<close>; the \<^verbatim>\<open>catch\<close> rethrows.
\<close>

definition edit3DCode :: "env \<Rightarrow> editor \<Rightarrow> bool \<Rightarrow> shape_id outcome \<times> editor \<times> effect list" where
  "edit3DCode env ed setIsEditing =
     (case edit3DCode_body env ed of
        (r, ed', fx) \<Rightarrow>
          (r, ed',
           (if setIsEditing then [SetIsEditing True] else []) @ fx @
           (if setIsEditing then [SetIsEditing False] else [])))"

section \<open>Vocabulary of the properties\<close>

text \<open>
  A message is terminal when its status is completed, failed or error, and a progress
  message when it parses and has any other status or none.
\<close>

definition status_terminal :: "string option \<Rightarrow> bool" where
  "status_terminal st = (st = Some ''completed'' \<or> st = Some ''failed'' \<or> st = Some ''error'')"

definition progress_message :: "event \<Rightarrow> bool" where
  "progress_message e =
     (case e of Event t p \<Rightarrow>
        t = ''message'' \<and>
        (case p of Parsed d \<Rightarrow> \<not> status_terminal (status d) | Unparseable \<Rightarrow> False))"






text \<open>Every event of a run arrives before the bound and is of the given kind.\<close>

definition arrivals :: "nat \<Rightarrow> (event \<Rightarrow> bool) \<Rightarrow> (nat \<times> event) list \<Rightarrow> bool" where
  "arrivals bound P es = list_all (\<lambda>(t, e). t < bound \<and> P e) es"




text \<open>A message object with no field set, to build examples from.\<close>

definition no_fields :: notification where
  "no_fields =
     \<lparr>status = None, content = None, message = None, error = None, images = None, data = None\<rparr>"


text \<open>The preview element a call of vibe3DCode works on: the one given, or the new one.\<close>

definition preview_id :: "env \<Rightarrow> shape_id option \<Rightarrow> shape_id" where
  "preview_id env shapeId = (if truthy shapeId then the shapeId else createShapeId env)"

fun opens_channel :: "effect \<Rightarrow> bool" where
  "opens_channel (OpenEventSource url) = True"
| "opens_channel (OpenWebSocket url) = True"
| "opens_channel f = False"


text \<open>Export and network work, and changes to the shapes.\<close>

fun export_or_network :: "effect \<Rightarrow> bool" where
  "export_or_network (GetSvg shapes) = True"
| "export_or_network GetSvgAsImage = True"
| "export_or_network BlobToBase64 = True"
| "export_or_network (Fetch url req) = True"
| "export_or_network (OpenEventSource url) = True"
| "export_or_network (OpenWebSocket url) = True"
| "export_or_network f = False"

fun changes_shapes :: "effect \<Rightarrow> bool" where
  "changes_shapes (CreateShape sh) = True"
| "changes_shapes (UpdateShape sid) = True"
| "changes_shapes (DeleteShape sid) = True"
| "changes_shapes f = False"

text \<open>The submission of vibe3DCode: its URL and its request body.\<close>

definition submission_url :: "bool \<Rightarrow> string" where
  "submission_url thinkingMode =
     (if thinkingMode then ''http://localhost:8001/api/trellis/task''
      else ''http://localhost:8001/api/queue/3d'')"

definition submission :: "env \<Rightarrow> bool \<Rightarrow> string \<Rightarrow> request" where
  "submission env thinkingMode dataUrl =
     (if thinkingMode then TrellisRequest dataUrl
      else ImageRequest (getSelectionAsText env) dataUrl)"

text \<open>Examples: a drawing, a preview shape with code, an editor and an environment.\<close>

definition a_drawing :: shape where
  "a_drawing =
     \<lparr>shape_id = ''shape:draw1'', shape_type = ''draw'', shape_x = 0, shape_y = 0,
      threeJsCode = None, objectCode = [], gltfUrl = None, isGltf = False,
      props_w = 100, props_h = 100, selectedShapes = []\<rparr>"

definition a_model :: "string option \<Rightarrow> shape" where
  "a_model code = (getDefaultProps ''shape:model1'' 200 0)\<lparr>threeJsCode := code\<rparr>"

definition an_editor :: "shape list \<Rightarrow> editor" where
  "an_editor selection =
     \<lparr>store = map_of (map (\<lambda>sh. (shape_id sh, sh)) selection),
      getSelectedShapes = selection,
      getSelectionPageBounds = Some \<lparr>maxX = 100, midY = 50\<rparr>\<rparr>"

definition an_env ::
  "(js_error + string option) \<Rightarrow> (js_error + http_response) \<Rightarrow> (nat \<times> event) list \<Rightarrow> env" where
  "an_env svg response es =
     \<lparr>createShapeId = ''shape:new'',
      getSvg = (\<lambda>shapes. svg),
      getSvgAsImage = (\<lambda>svg. Inr (Some ''png'')),
      blobToBase64 = (\<lambda>blob. Inr ''data:image/png;base64,AAAA''),
      getSelectionAsText = ''a chair'',
      fetch = (\<lambda>url req. response),
      events = (\<lambda>url. es)\<rparr>"

text \<open>The two parts of the selection that edit3DCode tells apart.\<close>

definition model3d_selected :: "editor \<Rightarrow> shape list" where
  "model3d_selected ed = filter (\<lambda>shape. shape_type shape = ''model3d'') (getSelectedShapes ed)"

definition guides_selected :: "editor \<Rightarrow> shape list" where
  "guides_selected ed = filter (\<lambda>shape. shape_type shape \<noteq> ''model3d'') (getSelectedShapes ed)"

definition code_missing_or_short :: "shape \<Rightarrow> bool" where
  "code_missing_or_short m =
     (case threeJsCode m of None \<Rightarrow> True | Some c \<Rightarrow> length c < 10)"

definition invalid_selection :: "editor \<Rightarrow> bool" where
  "invalid_selection ed =
     (getSelectedShapes ed = [] \<or> model3d_selected ed = [] \<or> 1 < length (model3d_selected ed)
      \<or> guides_selected ed = [] \<or> code_missing_or_short (hd (model3d_selected ed)))"

text \<open>
  What a pattern matches, without the order of the attempts: \<open>sem r st st'\<close> holds when
  \<open>r\<close> can take the matcher from state \<open>st\<close> to state \<open>st'\<close>. After a word \<open>w\<close> has
  been taken, the character before the position is the last of \<open>w\<close>.
\<close>

definition last_prev :: "char option \<Rightarrow> string \<Rightarrow> char option" where
  "last_prev p w = (if w = [] then p else Some (last w))"

primrec sem :: "re \<Rightarrow> mstate \<Rightarrow> mstate \<Rightarrow> bool" where
  "sem (Lit l) = (\<lambda>(p, s, g) (p', s', g'). s = l @ s' \<and> p' = last_prev p l \<and> g' = g)"
| "sem (Set c) = (\<lambda>(p, s, g) (p', s', g'). \<exists>x. s = x # s' \<and> cls_mem c x \<and> p' = Some x \<and> g' = g)"
| "sem (Star c) =
     (\<lambda>(p, s, g) (p', s', g'). \<exists>w. s = w @ s' \<and> list_all (cls_mem c) w \<and> p' = last_prev p w \<and> g' = g)"
| "sem (Plus c) =
     (\<lambda>(p, s, g) (p', s', g').
        \<exists>w. w \<noteq> [] \<and> s = w @ s' \<and> list_all (cls_mem c) w \<and> p' = last_prev p w \<and> g' = g)"
| "sem (LazyStar c) =
     (\<lambda>(p, s, g) (p', s', g'). \<exists>w. s = w @ s' \<and> list_all (cls_mem c) w \<and> p' = last_prev p w \<and> g' = g)"
| "sem (Opt r) = (\<lambda>st st'. sem r st st' \<or> st' = st)"
| "sem (Group r) =
     (\<lambda>(p, s, g) (p', s', g').
        \<exists>g''. sem r (p, s, g) (p', s', g'') \<and> g' = Some (take (length s - length s') s))"
| "sem (Seq r1 r2) = (\<lambda>st st'. \<exists>m. sem r1 st m \<and> sem r2 m st')"
| "sem Bol = (\<lambda>(p, s, g) st'. at_line_start p \<and> st' = (p, s, g))"
| "sem Eol = (\<lambda>(p, s, g) st'. at_line_end s \<and> st' = (p, s, g))"









section \<open>Properties of the result-wait protocol\<close>

lemma run_append: "run w s (xs @ ys) = run w (run w s xs) ys"
  by (induction xs arbitrary: s) auto

lemma arrivals_Cons: "arrivals b P ((t, e) # es) = (t < b \<and> P e \<and> arrivals b P es)"
  by (simp add: arrivals_def)

lemma quiet_run:
  assumes step: "\<And>t e. t < b \<Longrightarrow> P e \<Longrightarrow> deliver w e (elapse w t (init w)) = init w"
    and "arrivals b P es"
  shows "run w (init w) es = init w"
  using assms(2)
proof (induction es)
  case Nil
  show ?case by simp
next
  case (Cons a es)
  obtain t e where a: "a = (t, e)" by (cases a)
  with Cons.prems have "t < b" "P e" "arrivals b P es" by (simp_all add: arrivals_Cons)
  with step Cons.IH a show ?case by simp
qed

lemmas wait_defs = elapse_def es_deliver_def ws_deliver_def es_close_def ws_close_def resolve_def
  reject_def cleanup_def clearTimeout_def settle_calls_def close_calls_def

lemma code_progress_step:
  "t < 300000 \<Longrightarrow> progress_message e \<Longrightarrow>
   deliver waitForCodeGeneration e (elapse waitForCodeGeneration t (init waitForCodeGeneration)) =
     init waitForCodeGeneration"
  by (auto simp: progress_message_def status_terminal_def waitForCodeGeneration_def wait_defs
      code_dispatch_def code_onmessage_def split: event.splits payload.splits)


lemma task_progress_step:
  "t < 120000 \<Longrightarrow> progress_message e \<Longrightarrow>
   deliver waitForTaskResult e (elapse waitForTaskResult t (init waitForTaskResult)) =
     init waitForTaskResult"
  by (auto simp: progress_message_def status_terminal_def waitForTaskResult_def wait_defs
      task_dispatch_def task_onmessage_def split: event.splits payload.splits)










lemma run_after_quiet:
  assumes "\<And>t e. t < b \<Longrightarrow> P e \<Longrightarrow> deliver w e (elapse w t (init w)) = init w"
    and "arrivals b P pre"
  shows "run w (init w) (pre @ [(t, e)]) = deliver w e (elapse w t (init w))"
  using quiet_run [OF assms] by (simp add: run_append)

lemmas code_after_progress = run_after_quiet [where w = waitForCodeGeneration, OF code_progress_step]
lemmas task_after_progress = run_after_quiet [where w = waitForTaskResult, OF task_progress_step]





















text \<open>
  The failure messages of the two wait functions that read the status: a message whose
  status is failed or error and whose message field is a non-empty text rejects the
  promise with that text; without such a field the fixed text of the function is used.
\<close>

lemma failed_message_rejects_with_its_reason:
  assumes "status d = Some ''failed'' \<or> status d = Some ''error''"
  shows "arrivals 300000 progress_message pre \<Longrightarrow> t < 300000 \<Longrightarrow>
           promise (run waitForCodeGeneration (init waitForCodeGeneration)
                      (pre @ [(t, Event ''message'' (Parsed d))])) =
             Rejected (Error (js_or (message d) ''Error generating code''))"
    and "arrivals 120000 progress_message pre \<Longrightarrow> t < 120000 \<Longrightarrow>
           promise (run waitForTaskResult (init waitForTaskResult)
                      (pre @ [(t, Event ''message'' (Parsed d))])) =
             Rejected (Error (js_or (message d) ''Unknown error occurred''))"
proof -
  have code: "promise (deliver waitForCodeGeneration (Event ''message'' (Parsed d))
                  (elapse waitForCodeGeneration t (init waitForCodeGeneration))) =
              Rejected (Error (js_or (message d) ''Error generating code''))" if "t < 300000"
    using assms that
    by (auto simp: waitForCodeGeneration_def wait_defs code_dispatch_def code_onmessage_def)
  have task: "promise (deliver waitForTaskResult (Event ''message'' (Parsed d))
                  (elapse waitForTaskResult t (init waitForTaskResult))) =
              Rejected (Error (js_or (message d) ''Unknown error occurred''))" if "t < 120000"
    using assms that
    by (auto simp: waitForTaskResult_def wait_defs task_dispatch_def task_onmessage_def)
  show "arrivals 300000 progress_message pre \<Longrightarrow> t < 300000 \<Longrightarrow>
           promise (run waitForCodeGeneration (init waitForCodeGeneration)
                      (pre @ [(t, Event ''message'' (Parsed d))])) =
             Rejected (Error (js_or (message d) ''Error generating code''))"
    by (simp add: code_after_progress code)
  show "arrivals 120000 progress_message pre \<Longrightarrow> t < 120000 \<Longrightarrow>
           promise (run waitForTaskResult (init waitForTaskResult)
                      (pre @ [(t, Event ''message'' (Parsed d))])) =
             Rejected (Error (js_or (message d) ''Unknown error occurred''))"
    by (simp add: task_after_progress task)
qed

lemma failed_boom:
  "promise (run waitForCodeGeneration (init waitForCodeGeneration)
     [(10, Event ''message'' (Parsed (no_fields\<lparr>status := Some ''failed'', message := Some ''boom''\<rparr>)))])
   = Rejected (Error ''boom'')"
  using failed_message_rejects_with_its_reason(1)
          [of "no_fields\<lparr>status := Some ''failed'', message := Some ''boom''\<rparr>" "[]" 10]
  by (simp add: arrivals_def no_fields_def js_or_def)

lemma unparseable_message_rejects_code_generation:
  "promise (run waitForCodeGeneration (init waitForCodeGeneration) [(10, Event ''message'' Unparseable)])
   = Rejected SyntaxError"
  by (simp add: waitForCodeGeneration_def wait_defs code_dispatch_def code_onmessage_def)

text \<open>
  C5 at the failing input. A socket message that does not parse makes the handler of
  waitForTaskResult throw before it reaches any call: the promise stays pending and the
  socket open, where the claim has a rejection with a generic reason (which is what
  waitForCodeGeneration does on the same message).
\<close>

theorem unparseable_socket_message_settles_nothing:
  "promise (run waitForTaskResult (init waitForTaskResult) [(1000, Event ''message'' Unparseable)])
     = Pending
 \<and> calls (run waitForTaskResult (init waitForTaskResult) [(1000, Event ''message'' Unparseable)])
     = []
 \<and> readyState (run waitForTaskResult (init waitForTaskResult) [(1000, Event ''message'' Unparseable)])
     = Active"
  by (simp add: waitForTaskResult_def wait_defs task_dispatch_def task_onmessage_def)

section \<open>Properties of the orchestrators\<close>




lemma thinking_not_ok:
  assumes "fetch env ''http://localhost:8001/api/trellis/task'' (TrellisRequest dataUrl) = Inr response"
    and "\<not> ok response"
  shows "vibe3DCode_thinking env ed sid dataUrl =
     (Threw (case json response of Inl e \<Rightarrow> e
             | Inr errorData \<Rightarrow> Error (''API error: '' @ js_or (detail errorData) (statusText response))),
      ed, [Fetch ''http://localhost:8001/api/trellis/task'' (TrellisRequest dataUrl)])"
  using assms by (simp add: vibe3DCode_thinking_def split: sum.splits)

lemma queue_not_ok:
  assumes "fetch env ''http://localhost:8001/api/queue/3d'' (ImageRequest txt dataUrl) = Inr response"
    and "\<not> ok response"
  shows "vibe3DCode_queue env ed sid dataUrl txt =
     (Threw (case json response of Inl e \<Rightarrow> e
             | Inr errorData \<Rightarrow> Error (''API error: '' @ js_or (detail errorData) (statusText response))),
      ed, [Fetch ''http://localhost:8001/api/queue/3d'' (ImageRequest txt dataUrl)])"
  using assms by (simp add: vibe3DCode_queue_def split: sum.splits)

text \<open>
  C3, as amended. When the export of the selection has succeeded and the submission
  request comes back with a status that is not OK, vibe3DCode throws before any
  EventSource or WebSocket is opened, and the preview element (the one it created, or
  the one it was given) is deleted. The error is \<^verbatim>\<open>API error: \<close> followed by the detail
  of the answer, or by its status text when there is none, when the body of the answer
  parses; it is the parse error of the body otherwise.
\<close>

theorem non_ok_submission_rejects_before_any_channel:
  assumes sel: "getSelectedShapes ed \<noteq> []"
    and pre: "truthy shapeId \<or> getSelectionPageBounds ed \<noteq> None"
    and svg: "getSvg env (filter (\<lambda>shape. shape_type shape \<noteq> ''model3d'') (getSelectedShapes ed))
                = Inr (Some svg)"
    and blob: "getSvgAsImage env svg = Inr blob"
    and url: "blobToBase64 env blob = Inr dataUrl"
    and resp: "fetch env (submission_url thinkingMode) (submission env thinkingMode dataUrl)
                = Inr response"
    and nok: "\<not> ok response"
  shows "fst (vibe3DCode env ed shapeId thinkingMode) =
           Threw (case json response of
                    Inl e \<Rightarrow> e
                  | Inr errorData \<Rightarrow>
                      Error (''API error: '' @ js_or (detail errorData) (statusText response)))
       \<and> \<not> list_ex opens_channel (snd (snd (vibe3DCode env ed shapeId thinkingMode)))
       \<and> store (fst (snd (vibe3DCode env ed shapeId thinkingMode))) (preview_id env shapeId) = None"
proof (cases thinkingMode)
  case True
  with resp nok have "vibe3DCode_thinking env ed' sid dataUrl =
     (Threw (case json response of Inl e \<Rightarrow> e
             | Inr errorData \<Rightarrow> Error (''API error: '' @ js_or (detail errorData) (statusText response))),
      ed', [Fetch ''http://localhost:8001/api/trellis/task'' (TrellisRequest dataUrl)])" for ed' sid
    by (intro thinking_not_ok) (simp_all add: submission_url_def submission_def)
  with True sel pre svg blob url show ?thesis
    by (auto simp: vibe3DCode_def Let_def preview_id_def deleteShape_def createShape_def
        split: option.splits)
next
  case False
  with resp nok have "vibe3DCode_queue env ed' sid dataUrl (getSelectionAsText env) =
     (Threw (case json response of Inl e \<Rightarrow> e
             | Inr errorData \<Rightarrow> Error (''API error: '' @ js_or (detail errorData) (statusText response))),
      ed', [Fetch ''http://localhost:8001/api/queue/3d'' (ImageRequest (getSelectionAsText env) dataUrl)])" for ed' sid
    by (intro queue_not_ok) (simp_all add: submission_url_def submission_def)
  with False sel pre svg blob url show ?thesis
    by (auto simp: vibe3DCode_def Let_def preview_id_def deleteShape_def createShape_def
        split: option.splits)
qed

theorem non_ok_submission_witness:
  "fst (vibe3DCode
          (an_env (Inr (Some ''<svg/>''))
             (Inr \<lparr>ok = False, statusText = ''Bad Request'',
                   json = Inr \<lparr>detail = Some ''no image'', task_id = None, data_task_id = None\<rparr>\<rparr>) [])
          (an_editor [a_drawing]) None False)
     = Threw (Error ''API error: no image'')
 \<and> store (fst (snd (vibe3DCode
          (an_env (Inr (Some ''<svg/>''))
             (Inr \<lparr>ok = False, statusText = ''Bad Request'',
                   json = Inr \<lparr>detail = Some ''no image'', task_id = None, data_task_id = None\<rparr>\<rparr>) [])
          (an_editor [a_drawing]) None False))) ''shape:new'' = None"
  using non_ok_submission_rejects_before_any_channel
          [of "an_editor [a_drawing]" None
              "an_env (Inr (Some ''<svg/>''))
                 (Inr \<lparr>ok = False, statusText = ''Bad Request'',
                       json = Inr \<lparr>detail = Some ''no image'', task_id = None, data_task_id = None\<rparr>\<rparr>) []"
              "''<svg/>''" "Some ''png''" "''data:image/png;base64,AAAA''" False
              "\<lparr>ok = False, statusText = ''Bad Request'',
                json = Inr \<lparr>detail = Some ''no image'', task_id = None, data_task_id = None\<rparr>\<rparr>"]
  by (simp add: an_env_def an_editor_def a_drawing_def preview_id_def truthy_def js_or_def)

text \<open>
  C3 as stated fails: a status that is not OK with a body that is not JSON makes
  vibe3DCode throw the parse error, not an API error.
\<close>

theorem non_ok_submission_with_unreadable_body:
  "\<not> ok \<lparr>ok = False, statusText = ''Internal Server Error'', json = Inl SyntaxError\<rparr>
 \<and> fst (vibe3DCode
          (an_env (Inr (Some ''<svg/>''))
             (Inr \<lparr>ok = False, statusText = ''Internal Server Error'', json = Inl SyntaxError\<rparr>) [])
          (an_editor [a_drawing]) None False)
     = Threw SyntaxError"
  by (simp add: vibe3DCode_def vibe3DCode_queue_def an_env_def an_editor_def a_drawing_def
      truthy_def getDefaultProps_def createShape_def deleteShape_def Let_def)

text \<open>
  C2 at the failing input. When \<^verbatim>\<open>getSvg\<close> yields nothing, vibe3DCode returns without an
  error and the empty preview shape it has just created stays in the store; when
  \<^verbatim>\<open>getSvg\<close> throws, the error reaches the caller and the shape stays as well. The
  export runs before the \<^verbatim>\<open>try\<close> block whose handler deletes the shape.
\<close>

theorem failed_export_leaves_the_placeholder:
  "fst (vibe3DCode (an_env (Inr None) (Inl TypeError) []) (an_editor [a_drawing]) None False)
     = Returned ()
 \<and> map_option threeJsCode
      (store (fst (snd (vibe3DCode (an_env (Inr None) (Inl TypeError) [])
                          (an_editor [a_drawing]) None False))) ''shape:new'')
     = Some (Some [])
 \<and> fst (vibe3DCode (an_env (Inl (Error ''export failed'')) (Inl TypeError) [])
          (an_editor [a_drawing]) None False)
     = Threw (Error ''export failed'')
 \<and> map_option threeJsCode
      (store (fst (snd (vibe3DCode (an_env (Inl (Error ''export failed'')) (Inl TypeError) [])
                          (an_editor [a_drawing]) None False))) ''shape:new'')
     = Some (Some [])"
  by (simp add: vibe3DCode_def an_env_def an_editor_def a_drawing_def
      truthy_def getDefaultProps_def createShape_def Let_def)



lemma edit3DCode_fst: "fst (edit3DCode env ed cb) = fst (edit3DCode_body env ed)"
  by (simp add: edit3DCode_def split: prod.splits)

lemma edit3DCode_editor: "fst (snd (edit3DCode env ed cb)) = fst (snd (edit3DCode_body env ed))"
  by (simp add: edit3DCode_def split: prod.splits)

lemma edit3DCode_effects:
  "snd (snd (edit3DCode_body env ed)) = [] \<Longrightarrow>
   \<not> list_ex export_or_network (snd (snd (edit3DCode env ed cb))) \<and>
   \<not> list_ex changes_shapes (snd (snd (edit3DCode env ed cb)))"
  by (cases "edit3DCode_body env ed") (simp add: edit3DCode_def)

lemma invalid_selection_body:
  assumes "invalid_selection ed"
  shows "snd (edit3DCode_body env ed) = (ed, [])"
proof (cases "model3d_selected ed")
  case Nil
  then show ?thesis
    by (simp add: edit3DCode_body_def model3d_selected_def Let_def)
next
  case (Cons m ms)
  with assms show ?thesis
    by (auto simp: edit3DCode_body_def model3d_selected_def guides_selected_def Let_def
        invalid_selection_def code_missing_or_short_def truthy_def split: option.splits)
qed

text \<open>
  C10. edit3DCode checks the selection before anything else, in this order, and throws
  an error with its own message for each case: nothing selected; no \<^verbatim>\<open>model3d\<close> shape
  selected; more than one; no other shape selected to guide the edit; the code of the
  selected model absent or shorter than 10 characters. In each of these cases the
  editor is left as it was and no export, request or channel has been started.
\<close>

theorem edit3DCode_validates_first:
  "(getSelectedShapes ed = [] \<longrightarrow>
      fst (edit3DCode env ed cb) = Threw (Error ''First select shapes for editing.''))
 \<and> (getSelectedShapes ed \<noteq> [] \<and> model3d_selected ed = [] \<longrightarrow>
      fst (edit3DCode env ed cb) = Threw (Error ''First select a 3D model to edit.''))
 \<and> (1 < length (model3d_selected ed) \<longrightarrow>
      fst (edit3DCode env ed cb) = Threw (Error ''Select only one 3D model at a time.''))
 \<and> (length (model3d_selected ed) = 1 \<and> guides_selected ed = [] \<longrightarrow>
      fst (edit3DCode env ed cb) =
        Threw (Error ''Select at least one drawing or shape to guide the editing.''))
 \<and> (model3d_selected ed = [m] \<and> guides_selected ed \<noteq> [] \<and> code_missing_or_short m \<longrightarrow>
      fst (edit3DCode env ed cb) =
        Threw (Error ''The selected 3D model does not contain valid code.''))
 \<and> (invalid_selection ed \<longrightarrow>
      fst (snd (edit3DCode env ed cb)) = ed \<and>
      \<not> list_ex export_or_network (snd (snd (edit3DCode env ed cb))) \<and>
      \<not> list_ex changes_shapes (snd (snd (edit3DCode env ed cb))))
 \<and> distinct [''First select shapes for editing.'', ''First select a 3D model to edit.'',
              ''Select only one 3D model at a time.'',
              ''Select at least one drawing or shape to guide the editing.'',
              ''The selected 3D model does not contain valid code.'']"
proof -
  have c1: "fst (edit3DCode_body env ed) = Threw (Error ''First select shapes for editing.'')"
    if "getSelectedShapes ed = []"
    using that by (simp add: edit3DCode_body_def)
  have c2: "fst (edit3DCode_body env ed) = Threw (Error ''First select a 3D model to edit.'')"
    if "getSelectedShapes ed \<noteq> []" "model3d_selected ed = []"
    using that by (simp add: edit3DCode_body_def model3d_selected_def Let_def)
  have c3: "fst (edit3DCode_body env ed) = Threw (Error ''Select only one 3D model at a time.'')"
    if "1 < length (model3d_selected ed)"
    using that by (auto simp: edit3DCode_body_def model3d_selected_def Let_def)
  have c4: "fst (edit3DCode_body env ed) =
      Threw (Error ''Select at least one drawing or shape to guide the editing.'')"
    if "length (model3d_selected ed) = 1" "guides_selected ed = []"
    using that by (auto simp: edit3DCode_body_def model3d_selected_def guides_selected_def Let_def)
  have c5: "fst (edit3DCode_body env ed) =
      Threw (Error ''The selected 3D model does not contain valid code.'')"
    if "model3d_selected ed = [m]" "guides_selected ed \<noteq> []" "code_missing_or_short m"
    using that
    by (auto simp: edit3DCode_body_def model3d_selected_def guides_selected_def Let_def
        code_missing_or_short_def truthy_def split: option.splits)
  have c6: "fst (snd (edit3DCode env ed cb)) = ed \<and>
      \<not> list_ex export_or_network (snd (snd (edit3DCode env ed cb))) \<and>
      \<not> list_ex changes_shapes (snd (snd (edit3DCode env ed cb)))"
    if "invalid_selection ed"
    using invalid_selection_body [OF that, of env] edit3DCode_effects [of env ed cb]
    by (simp add: edit3DCode_editor)
  show ?thesis
    using c1 c2 c3 c4 c5 c6 by (simp add: edit3DCode_fst)
qed

theorem edit3DCode_validates_first_witness:
  "fst (edit3DCode (an_env (Inr None) (Inl TypeError) []) (an_editor []) True)
     = Threw (Error ''First select shapes for editing.'')
 \<and> fst (edit3DCode (an_env (Inr None) (Inl TypeError) []) (an_editor [a_drawing]) True)
     = Threw (Error ''First select a 3D model to edit.'')
 \<and> fst (edit3DCode (an_env (Inr None) (Inl TypeError) [])
          (an_editor [a_model None, a_drawing, a_model None]) True)
     = Threw (Error ''Select only one 3D model at a time.'')
 \<and> fst (edit3DCode (an_env (Inr None) (Inl TypeError) []) (an_editor [a_model None]) True)
     = Threw (Error ''Select at least one drawing or shape to guide the editing.'')
 \<and> fst (edit3DCode (an_env (Inr None) (Inl TypeError) [])
          (an_editor [a_drawing, a_model (Some ''scene'')]) True)
     = Threw (Error ''The selected 3D model does not contain valid code.'')
 \<and> fst (snd (edit3DCode (an_env (Inr None) (Inl TypeError) [])
          (an_editor [a_drawing, a_model (Some ''scene'')]) True))
     = an_editor [a_drawing, a_model (Some ''scene'')]"
  using edit3DCode_validates_first
          [of "an_editor []" "an_env (Inr None) (Inl TypeError) []" True "a_model None"]
        edit3DCode_validates_first
          [of "an_editor [a_drawing]" "an_env (Inr None) (Inl TypeError) []" True "a_model None"]
        edit3DCode_validates_first
          [of "an_editor [a_model None, a_drawing, a_model None]"
              "an_env (Inr None) (Inl TypeError) []" True "a_model None"]
        edit3DCode_validates_first
          [of "an_editor [a_model None]" "an_env (Inr None) (Inl TypeError) []" True
              "a_model None"]
        edit3DCode_validates_first
          [of "an_editor [a_drawing, a_model (Some ''scene'')]"
              "an_env (Inr None) (Inl TypeError) []" True "a_model (Some ''scene'')"]
  by (simp add: an_editor_def a_drawing_def a_model_def getDefaultProps_def model3d_selected_def
      guides_selected_def code_missing_or_short_def invalid_selection_def)

section \<open>Properties of the code sanitizer\<close>

lemma last_prev_Nil [simp]: "last_prev p [] = p"
  by (simp add: last_prev_def)

lemma last_prev_Cons [simp]: "last_prev p (x # w) = last_prev (Some x) w"
  by (simp add: last_prev_def)

lemma last_prev_append [simp]: "last_prev p (u @ v) = last_prev (last_prev p u) v"
  by (induction u arbitrary: p) simp_all


lemma lit_None_iff: "lit l p s = None \<longleftrightarrow> (\<forall>s'. s \<noteq> l @ s')"
  by (induction l p s rule: lit.induct) auto














lemma cls_mem_Space [simp]: "cls_mem Space = white_space"
  by (rule ext) simp

lemma cls_mem_Word [simp]: "cls_mem Word = word_char"
  by (rule ext) simp

lemma list_all_Any [simp]: "list_all (cls_mem Any) w"
  by (simp add: list_all_iff)

lemma cls_mem_NotChar [simp]: "cls_mem (NotChar x) = (\<lambda>c. c \<noteq> x)"
  by (rule ext) simp















lemma sem_EolI: "at_line_end s \<Longrightarrow> sem Eol (p, s, g) (p, s, g)"
  by simp





























end
